theory Spec2Isabelle
  imports Main "HOL-Library.Word"
begin

unbundle bit_operations_syntax

section \<open>The lights module of the epicmtd device tree (liblight/lights.c)\<close>

text \<open>
  The module turns a light request (a packed colour and a flash pattern) into writes to
  sysfs control files. Two logical sources, battery and notifications, share the red and
  the blue LED; \<open>set_led\<close> arbitrates between them.

  The embedding follows the C file function by function. C's \<open>int\<close> and
  \<open>unsigned int\<close> are 32-bit words; signed tests are written with \<open><s\<close>, and a
  right shift of an \<open>int\<close> is \<open>signed_drop_bit\<close>. The four static \<open>led_state\<close>
  structs, the two \<open>already_warned\<close> flags and a trace of what the module did to the
  outside world form the state that every function takes and returns. The operating
  system is a parameter: a function that, from the trace so far, decides how the next
  \<open>open\<close>/\<open>write\<close> pair on a path ends. Calls to the Android log (ALOGV, ALOGD, ALOGI,
  ALOGE) have no effect on any of this and are left out; the unused \<open>dev\<close> argument of
  the handlers is left out as well.
\<close>

subsection \<open>Data\<close>

type_synonym c_int = "32 word"
type_synonym c_uint = "32 word"

text \<open>
  \<open>struct light_state_t\<close> comes from the Android header hardware/lights.h, which is
  not part of the sources; the record has the four fields lights.c reads, with the
  header's C types.
\<close>

record light_state_t =
  color :: c_uint
  flashMode :: c_int
  flashOnMS :: c_int
  flashOffMS :: c_int

text \<open>
  Modelled from the spec: the flash-mode constants of hardware/lights.h, which is not
  among the sources. The spec's LightSpec has a flashMode that is NONE, TIMED or
  unrecognized; the two named modes get the header's values 0 and 1.
\<close>

definition LIGHT_FLASH_NONE :: c_int where
  "LIGHT_FLASH_NONE = 0"

definition LIGHT_FLASH_TIMED :: c_int where
  "LIGHT_FLASH_TIMED = 1"

text \<open>\<open>struct led_state\<close> (lines 41-44).\<close>

record led_state =
  enabled :: c_uint
  delay_on :: c_int
  delay_off :: c_int

text \<open>
  What \<open>write_int\<close> and \<open>write_str\<close> hand to \<open>write(2)\<close>: \<open>Int_line v\<close> stands for
  the bytes \<open>sprintf\<close> makes of \<open>"%d\n"\<close> and \<open>v\<close>, \<open>Str s\<close> for the bytes of \<open>s\<close>.
\<close>

datatype payload = Int_line c_int | Str string

text \<open>
  How one \<open>open\<close>/\<open>write\<close>/\<open>close\<close> on a path ends: \<open>open\<close> fails with an
  \<open>errno\<close>, or \<open>write\<close> returns -1 with an \<open>errno\<close>, or \<open>write\<close> returns
  anything else.
\<close>

datatype io_outcome = Open_failed c_int | Write_failed c_int | Write_done

datatype source = Battery | Notifications

text \<open>
  The trace records, in order, the operations on the mutex \<open>g_lock\<close>, the moments
  where a source's pair of \<open>led_state\<close> structs is overwritten, and every attempted
  device write with its path, its payload and the code the module got for it.
\<close>

datatype event =
    Lock
  | Unlock
  | Recompute source
  | Write string payload c_int

type_synonym device_channel = "event list \<Rightarrow> string \<Rightarrow> payload \<Rightarrow> io_outcome"

record lights =
  battery_red :: led_state
  battery_blue :: led_state
  notifications_red :: led_state
  notifications_blue :: led_state
  write_int_warned :: bool
  write_str_warned :: bool
  trace :: "event list"

text \<open>Static storage is zero-initialised; nothing has happened yet.\<close>

definition led_state_zero :: led_state where
  "led_state_zero = \<lparr>enabled = 0, delay_on = 0, delay_off = 0\<rparr>"

definition lights_init :: lights where
  "lights_init =
     \<lparr>battery_red = led_state_zero, battery_blue = led_state_zero,
      notifications_red = led_state_zero, notifications_blue = led_state_zero,
      write_int_warned = False, write_str_warned = False, trace = []\<rparr>"

definition RED_LED_DIR :: string where
  "RED_LED_DIR = ''/sys/class/leds/red''"

definition BLUE_LED_DIR :: string where
  "BLUE_LED_DIR = ''/sys/class/leds/blue''"

definition LCD_FILE :: string where
  "LCD_FILE = ''/sys/class/backlight/s5p_bl/brightness''"

definition KEYBOARD_FILE :: string where
  "KEYBOARD_FILE = ''/sys/devices/platform/s3c-keypad/brightness''"

definition BUTTONS_FILE :: string where
  "BUTTONS_FILE = ''/sys/class/sec/t_key/brightness''"

definition BRIGHTNESS_FILE :: string where
  "BRIGHTNESS_FILE = ''/sys/devices/virtual/sec/t_key/touchleds_voltage''"

subsection \<open>The device channel (lines 46-104)\<close>

text \<open>The value both writers return: \<open>-errno\<close> on either failure, 0 otherwise.\<close>

definition io_result :: "io_outcome \<Rightarrow> c_int" where
  "io_result out = (case out of Open_failed e \<Rightarrow> - e | Write_failed e \<Rightarrow> - e | Write_done \<Rightarrow> 0)"

definition write_int :: "device_channel \<Rightarrow> string \<Rightarrow> c_int \<Rightarrow> lights \<Rightarrow> c_int \<times> lights" where
  "write_int os path v s =
     (let out = os (trace s) path (Int_line v);
          res = io_result out;
          s' = s\<lparr>trace := trace s @ [Write path (Int_line v) res]\<rparr>
      in case out of
           Open_failed e \<Rightarrow> (res, s'\<lparr>write_int_warned := True\<rparr>)
         | _ \<Rightarrow> (res, s'))"

definition write_str :: "device_channel \<Rightarrow> string \<Rightarrow> string \<Rightarrow> lights \<Rightarrow> c_int \<times> lights" where
  "write_str os path str s =
     (let out = os (trace s) path (Str str);
          res = io_result out;
          s' = s\<lparr>trace := trace s @ [Write path (Str str) res]\<rparr>
      in case out of
           Open_failed e \<Rightarrow> (res, s'\<lparr>write_str_warned := True\<rparr>)
         | _ \<Rightarrow> (res, s'))"

text \<open>
  Modelled from the spec: \<open>PATH_MAX\<close> of limits.h, which is not among the sources; the
  value is the one of Linux. \<open>snprintf\<close> keeps at most \<open>PATH_MAX - 1\<close> characters of
  \<open>dir/file\<close>.
\<close>

definition PATH_MAX :: nat where
  "PATH_MAX = 4096"

definition df_path :: "string \<Rightarrow> string \<Rightarrow> string" where
  "df_path dir file = take (PATH_MAX - 1) (dir @ ''/'' @ file)"

definition write_df_int :: "device_channel \<Rightarrow> string \<Rightarrow> string \<Rightarrow> c_int \<Rightarrow> lights \<Rightarrow> c_int \<times> lights" where
  "write_df_int os dir file v s = write_int os (df_path dir file) v s"

definition write_df_str :: "device_channel \<Rightarrow> string \<Rightarrow> string \<Rightarrow> string \<Rightarrow> lights \<Rightarrow> c_int \<times> lights" where
  "write_df_str os dir file str s = write_str os (df_path dir file) str s"

subsection \<open>Colour and flash translation (lines 106-143)\<close>

definition rgb_to_brightness :: "light_state_t \<Rightarrow> c_int" where
  "rgb_to_brightness st =
     (let c = color st AND 0x00ffffff
      in signed_drop_bit 8
           (77 * (signed_drop_bit 16 c AND 0x00ff)
            + 150 * (signed_drop_bit 8 c AND 0x00ff)
            + 29 * (c AND 0x00ff)))"

text \<open>
  \<open>comp_led_states\<close> assigns every field of the two structs it is given, so the model
  returns the two new structs. The \<open>default\<close> label of the \<open>switch\<close> falls through
  to \<open>LIGHT_FLASH_NONE\<close>.
\<close>

definition comp_led_states :: "light_state_t \<Rightarrow> led_state \<times> led_state" where
  "comp_led_states st =
     (let c = color st;
          (d_on, d_off) =
             (if flashMode st = LIGHT_FLASH_TIMED then (flashOnMS st, flashOffMS st)
              else (0, 0))
      in (\<lparr>enabled = (if drop_bit 16 c AND 0xff = 0 then 0 else 1),
           delay_on = d_on, delay_off = d_off\<rparr>,
          \<lparr>enabled = (if c AND 0xff = 0 then 0 else 1),
           delay_on = d_on, delay_off = d_off\<rparr>))"

subsection \<open>The arbiter (lines 145-178)\<close>

text \<open>
  The local pointer \<open>state\<close> of \<open>set_led\<close> (lines 148-154): \<open>NULL\<close> is \<open>None\<close>. The
  structs are only read through it, so the model carries the struct it points to.
\<close>

definition set_led_state :: "led_state \<Rightarrow> led_state \<Rightarrow> led_state option" where
  "set_led_state battery notifications =
     (if enabled notifications \<noteq> 0 then Some notifications
      else if enabled battery \<noteq> 0 then Some battery
      else None)"

definition set_led :: "device_channel \<Rightarrow> string \<Rightarrow> led_state \<Rightarrow> led_state \<Rightarrow> lights \<Rightarrow> c_int \<times> lights" where
  "set_led os dir battery notifications s =
     (case set_led_state battery notifications of
        Some state \<Rightarrow>
          (let d_on = delay_on state; d_off = delay_off state
           in if 0 <s d_on \<and> 0 <s d_off then
                (let (res, s) = write_df_str os dir ''trigger'' ''notification'' s in
                 if res <s 0 then (res, s) else
                 let (res, s) = write_df_str os dir ''brightness'' ''255'' s in
                 if res <s 0 then (res, s) else
                 let (res, s) = write_df_str os dir ''blink_count'' ''1'' s in
                 if res <s 0 then (res, s) else
                 let (res, s) = write_df_int os dir ''delay_on'' d_on s in
                 if res <s 0 then (res, s) else
                 let (res, s) = write_df_int os dir ''delay_off'' d_off s in
                 if res <s 0 then (res, s) else
                 (0, s))
              else
                (let (res, s) = write_df_str os dir ''trigger'' ''none'' s in
                 if res <s 0 then (res, s) else
                 let (res, s) = write_df_str os dir ''brightness'' ''255'' s in
                 if res <s 0 then (res, s) else
                 (0, s)))
      | None \<Rightarrow>
          (let (res, s) = write_df_str os dir ''trigger'' ''none'' s in
           if res <s 0 then (res, s) else
           let (res, s) = write_df_str os dir ''brightness'' ''0'' s in
           if res <s 0 then (res, s) else
           (0, s)))"

subsection \<open>The handlers (lines 180-274)\<close>

definition pthread_mutex_lock :: "lights \<Rightarrow> lights" where
  "pthread_mutex_lock s = s\<lparr>trace := trace s @ [Lock]\<rparr>"

definition pthread_mutex_unlock :: "lights \<Rightarrow> lights" where
  "pthread_mutex_unlock s = s\<lparr>trace := trace s @ [Unlock]\<rparr>"

definition set_light_battery :: "device_channel \<Rightarrow> light_state_t \<Rightarrow> lights \<Rightarrow> c_int \<times> lights" where
  "set_light_battery os st s =
     (let s = pthread_mutex_lock s;
          (red, blue) = comp_led_states st;
          s = s\<lparr>battery_red := red, battery_blue := blue, trace := trace s @ [Recompute Battery]\<rparr>;
          (res, s) = set_led os RED_LED_DIR (battery_red s) (notifications_red s) s;
          (res, s) = (if 0 \<le>s res
                      then set_led os BLUE_LED_DIR (battery_blue s) (notifications_blue s) s
                      else (res, s));
          s = pthread_mutex_unlock s
      in (res, s))"

definition set_light_notifications :: "device_channel \<Rightarrow> light_state_t \<Rightarrow> lights \<Rightarrow> c_int \<times> lights" where
  "set_light_notifications os st s =
     (let s = pthread_mutex_lock s;
          (red, blue) = comp_led_states st;
          s = s\<lparr>notifications_red := red, notifications_blue := blue,
                trace := trace s @ [Recompute Notifications]\<rparr>;
          (res, s) = set_led os RED_LED_DIR (battery_red s) (notifications_red s) s;
          (res, s) = (if 0 \<le>s res
                      then set_led os BLUE_LED_DIR (battery_blue s) (notifications_blue s) s
                      else (res, s));
          s = pthread_mutex_unlock s
      in (res, s))"

definition set_light_backlight :: "device_channel \<Rightarrow> light_state_t \<Rightarrow> lights \<Rightarrow> c_int \<times> lights" where
  "set_light_backlight os st s =
     (let brightness = rgb_to_brightness st;
          s = pthread_mutex_lock s;
          (err, s) = write_int os LCD_FILE brightness s;
          s = pthread_mutex_unlock s
      in (err, s))"

definition set_light_keyboard :: "device_channel \<Rightarrow> light_state_t \<Rightarrow> lights \<Rightarrow> c_int \<times> lights" where
  "set_light_keyboard os st s =
     (let key_led_control = (if color st AND 0x00ffffff \<noteq> 0 then 1 else 2);
          s = pthread_mutex_lock s;
          (res, s) = write_int os KEYBOARD_FILE key_led_control s;
          s = pthread_mutex_unlock s
      in (res, s))"

definition set_light_buttons :: "device_channel \<Rightarrow> light_state_t \<Rightarrow> lights \<Rightarrow> c_int \<times> lights" where
  "set_light_buttons os st s =
     (let (_, s) = set_light_keyboard os st s;
          touch_led_control = (if color st AND 0x00ffffff \<noteq> 0 then 1 else 0);
          brightness = rgb_to_brightness st;
          s = (if 0 <s brightness
               then (let s = pthread_mutex_lock s;
                         (_, s) = write_int os BRIGHTNESS_FILE brightness s
                     in pthread_mutex_unlock s)
               else s);
          s = pthread_mutex_lock s;
          (res, s) = write_int os BUTTONS_FILE touch_led_control s;
          s = pthread_mutex_unlock s
      in (res, s))"

subsection \<open>Vocabulary of the specification\<close>

text \<open>The three colour bytes of a packed colour, as numbers: bits 16-23, 8-15 and 0-7.\<close>

definition red_byte :: "c_uint \<Rightarrow> int" where
  "red_byte c = (uint c div 65536) mod 256"

definition green_byte :: "c_uint \<Rightarrow> int" where
  "green_byte c = (uint c div 256) mod 256"

definition blue_byte :: "c_uint \<Rightarrow> int" where
  "blue_byte c = uint c mod 256"

text \<open>
  The specification's write discipline (section 4.2), in its own words: the writes of a
  list are attempted one after the other; the first one that fails (a negative code)
  ends the sequence, and its code is the result; when none fails the result is 0.
\<close>

definition write_payload :: "device_channel \<Rightarrow> string \<Rightarrow> payload \<Rightarrow> lights \<Rightarrow> c_int \<times> lights" where
  "write_payload os path d s =
     (case d of Int_line v \<Rightarrow> write_int os path v s | Str str \<Rightarrow> write_str os path str s)"

fun write_in_order :: "device_channel \<Rightarrow> (string \<times> payload) list \<Rightarrow> lights \<Rightarrow> c_int \<times> lights" where
  "write_in_order os [] s = (0, s)"
| "write_in_order os ((path, d) # ws) s =
     (let (res, s') = write_payload os path d s
      in if res <s 0 then (res, s') else write_in_order os ws s')"

text \<open>The three write sequences of section 4.2, for the LED whose directory is \<open>dir\<close>.\<close>

definition blink_writes :: "string \<Rightarrow> c_int \<Rightarrow> c_int \<Rightarrow> (string \<times> payload) list" where
  "blink_writes dir d_on d_off =
     [(df_path dir ''trigger'', Str ''notification''),
      (df_path dir ''brightness'', Str ''255''),
      (df_path dir ''blink_count'', Str ''1''),
      (df_path dir ''delay_on'', Int_line d_on),
      (df_path dir ''delay_off'', Int_line d_off)]"

definition solid_writes :: "string \<Rightarrow> (string \<times> payload) list" where
  "solid_writes dir =
     [(df_path dir ''trigger'', Str ''none''), (df_path dir ''brightness'', Str ''255'')]"

definition off_writes :: "string \<Rightarrow> (string \<times> payload) list" where
  "off_writes dir =
     [(df_path dir ''trigger'', Str ''none''), (df_path dir ''brightness'', Str ''0'')]"

definition led_writes :: "string \<Rightarrow> led_state option \<Rightarrow> (string \<times> payload) list" where
  "led_writes dir w =
     (case w of
        None \<Rightarrow> off_writes dir
      | Some state \<Rightarrow>
          if 0 <s delay_on state \<and> 0 <s delay_off state
          then blink_writes dir (delay_on state) (delay_off state)
          else solid_writes dir)"

text \<open>The invariant the specification gives for a stored \<open>led_state\<close> (section 3).\<close>

definition delays_consistent :: "led_state \<Rightarrow> bool" where
  "delays_consistent ls =
     ((delay_on ls = 0 \<and> delay_off ls = 0) \<or> (0 <s delay_on ls \<and> 0 <s delay_off ls))"

text \<open>The four records of the state store, and what a call added to the trace.\<close>

definition led_store :: "lights \<Rightarrow> led_state \<times> led_state \<times> led_state \<times> led_state" where
  "led_store s = (battery_red s, battery_blue s, notifications_red s, notifications_blue s)"

definition events_since :: "lights \<Rightarrow> lights \<Rightarrow> event list" where
  "events_since s s' = drop (length (trace s)) (trace s')"

text \<open>
  The state in which a battery or a notifications call starts its red-LED arbitration:
  the lock is taken and the source's two records are recomputed from the request.
\<close>

definition battery_recomputed :: "light_state_t \<Rightarrow> lights \<Rightarrow> lights" where
  "battery_recomputed st s =
     s\<lparr>battery_red := fst (comp_led_states st), battery_blue := snd (comp_led_states st),
       trace := trace s @ [Lock, Recompute Battery]\<rparr>"

definition notifications_recomputed :: "light_state_t \<Rightarrow> lights \<Rightarrow> lights" where
  "notifications_recomputed st s =
     s\<lparr>notifications_red := fst (comp_led_states st),
       notifications_blue := snd (comp_led_states st),
       trace := trace s @ [Lock, Recompute Notifications]\<rparr>"




subsection \<open>Vocabulary for two concurrent calls\<close>

text \<open>
  The devices of the specification's table of targets (section 6), each with its control
  files: the two LEDs have five controls each in their directory, the other four devices
  are one file each.
\<close>

datatype device = Red_led | Blue_led | Backlight | Keyboard | Buttons | Touch_voltage

definition led_controls :: "string list" where
  "led_controls = [''trigger'', ''brightness'', ''blink_count'', ''delay_on'', ''delay_off'']"

fun device_files :: "device \<Rightarrow> string list" where
  "device_files Red_led = map (df_path RED_LED_DIR) led_controls"
| "device_files Blue_led = map (df_path BLUE_LED_DIR) led_controls"
| "device_files Backlight = [LCD_FILE]"
| "device_files Keyboard = [KEYBOARD_FILE]"
| "device_files Buttons = [BUTTONS_FILE]"
| "device_files Touch_voltage = [BRIGHTNESS_FILE]"

definition writes_to :: "device \<Rightarrow> event \<Rightarrow> bool" where
  "writes_to dv e = (case e of Write path _ _ \<Rightarrow> path \<in> set (device_files dv) | _ \<Rightarrow> False)"

text \<open>
  A schedule of two calls is a list of events, each tagged with the call that does it
  (\<open>True\<close> for the first call, \<open>False\<close> for the second). It is a merge of two
  event lists when it contains the events of each call, in that call's order. The mutex is
  respected when no \<open>Lock\<close> happens while the lock is held: \<open>pthread_mutex_lock\<close>
  returns only when the lock is free. (\<open>open_lights\<close>, line 306, initialises
  \<open>g_lock\<close> again each time a light is opened; a schedule in which that lets a second
  call take the lock while the first holds it is not of this kind.)
\<close>

definition events_of :: "bool \<Rightarrow> (bool \<times> event) list \<Rightarrow> event list" where
  "events_of t zs = map snd (filter (\<lambda>z. fst z = t) zs)"

definition is_merge :: "(bool \<times> event) list \<Rightarrow> event list \<Rightarrow> event list \<Rightarrow> bool" where
  "is_merge zs xs ys = (events_of True zs = xs \<and> events_of False zs = ys)"


text \<open>
  \<open>serialized\<close>: the schedule is all of one call followed by all of the other.
  \<open>device_serialized dv\<close>: the writes that the device \<open>dv\<close> sees are all of one
  call's writes to it followed by all of the other's.
\<close>

definition serialized :: "(bool \<times> event) list \<Rightarrow> event list \<Rightarrow> event list \<Rightarrow> bool" where
  "serialized zs xs ys =
     (zs = map (Pair True) xs @ map (Pair False) ys \<or> zs = map (Pair False) ys @ map (Pair True) xs)"

definition device_serialized :: "device \<Rightarrow> (bool \<times> event) list \<Rightarrow> event list \<Rightarrow> event list \<Rightarrow> bool" where
  "device_serialized dv zs xs ys =
     (filter (writes_to dv) (map snd zs) = filter (writes_to dv) xs @ filter (writes_to dv) ys
      \<or> filter (writes_to dv) (map snd zs) = filter (writes_to dv) ys @ filter (writes_to dv) xs)"







subsection \<open>Concrete inputs\<close>

text \<open>
  Channels: one on which every write succeeds, and three on which some file cannot be
  opened (\<open>errno\<close> 13, EACCES).
\<close>

definition always_ok :: device_channel where
  "always_ok t path d = Write_done"

definition red_trigger_denied :: device_channel where
  "red_trigger_denied t path d =
     (if path = ''/sys/class/leds/red/trigger'' then Open_failed 13 else Write_done)"

definition red_brightness_denied :: device_channel where
  "red_brightness_denied t path d =
     (if path = ''/sys/class/leds/red/brightness'' then Open_failed 13 else Write_done)"

definition keyboard_and_voltage_denied :: device_channel where
  "keyboard_and_voltage_denied t path d =
     (if path = KEYBOARD_FILE \<or> path = BRIGHTNESS_FILE then Open_failed 13 else Write_done)"

text \<open>Requests.\<close>

definition pure_white :: light_state_t where
  "pure_white = \<lparr>color = 0xffffffff, flashMode = 0, flashOnMS = 0, flashOffMS = 0\<rparr>"

definition solid_red :: light_state_t where
  "solid_red = \<lparr>color = 0xff0000, flashMode = LIGHT_FLASH_NONE, flashOnMS = 0, flashOffMS = 0\<rparr>"

definition solid_green :: light_state_t where
  "solid_green = \<lparr>color = 0x00ff00, flashMode = LIGHT_FLASH_NONE, flashOnMS = 0, flashOffMS = 0\<rparr>"

definition black :: light_state_t where
  "black = \<lparr>color = 0, flashMode = LIGHT_FLASH_NONE, flashOnMS = 0, flashOffMS = 0\<rparr>"

definition blink_purple :: light_state_t where
  "blink_purple =
     \<lparr>color = 0xff00ff, flashMode = LIGHT_FLASH_TIMED, flashOnMS = 300, flashOffMS = 700\<rparr>"

definition timed_on_zero :: light_state_t where
  "timed_on_zero =
     \<lparr>color = 0xff0000, flashMode = LIGHT_FLASH_TIMED, flashOnMS = 0, flashOffMS = 500\<rparr>"

text \<open>Stored records.\<close>

definition led_solid :: led_state where
  "led_solid = \<lparr>enabled = 1, delay_on = 0, delay_off = 0\<rparr>"

definition led_blink :: led_state where
  "led_blink = \<lparr>enabled = 1, delay_on = 500, delay_off = 500\<rparr>"

definition led_off_stale :: led_state where
  "led_off_stale = \<lparr>enabled = 0, delay_on = 200, delay_off = 100\<rparr>"

text \<open>A state store in which both sources have set records before.\<close>

definition store_in_use :: lights where
  "store_in_use =
     lights_init\<lparr>battery_red := led_solid, battery_blue := led_off_stale,
                 notifications_red := led_blink, notifications_blue := led_solid\<rparr>"



section \<open>Word arithmetic behind the colour computations\<close>

lemma uint_and_ff: "uint (w AND 0xff :: 32 word) = uint w mod 256"
proof -
  have "(0xff :: 32 word) = mask 8" by (simp add: mask_eq_exp_minus_1)
  then have "w AND 0xff = take_bit 8 w" by (simp add: take_bit_eq_mask)
  then show ?thesis by (simp add: take_bit_eq_mod uint_mod)
qed

lemma uint_and_ffffff: "uint (w AND 0xffffff :: 32 word) = uint w mod 16777216"
proof -
  have "(0xffffff :: 32 word) = mask 24" by (simp add: mask_eq_exp_minus_1)
  then have "w AND 0xffffff = take_bit 24 w" by (simp add: take_bit_eq_mask)
  then show ?thesis by (simp add: take_bit_eq_mod uint_mod)
qed

lemma uint_drop_bit32:
  "uint (drop_bit 16 (w :: 32 word)) = uint w div 65536"
  "uint (drop_bit 8 (w :: 32 word)) = uint w div 256"
  by (simp_all add: drop_bit_eq_div uint_div)

lemma small_no_sign: "uint (w :: 32 word) < 2147483648 \<Longrightarrow> \<not> bit w 31"
proof
  assume a: "uint w < 2147483648" and b: "bit w 31"
  from b have "bit (uint w) 31" by (simp add: bit_uint_iff)
  then have "2 ^ 31 \<le> uint w"
    by (metis bit_iff_odd div_pos_pos_trivial even_zero linorder_not_less unsigned_greater_eq)
  with a show False by simp
qed

text \<open>On a non-negative \<open>int\<close> the arithmetic shift is the logical one.\<close>

lemma sdb_nonneg: "\<not> bit w 31 \<Longrightarrow> signed_drop_bit n (w :: 32 word) = drop_bit n w"
  apply (rule bit_word_eqI)
  apply (auto simp add: bit_signed_drop_bit_iff bit_drop_bit_eq)
  using bit_imp_le_length apply fastforce
  done

lemma sint_small: "uint (w :: 32 word) < 2147483648 \<Longrightarrow> sint w = uint w"
  by (simp add: sint_uint signed_take_bit_eq_if_positive small_no_sign bit_uint_iff take_bit_eq_mod)

lemma byte2_of_low24: "(x::int) mod 16777216 div 65536 mod 256 = x div 65536 mod 256"
proof -
  have "take_bit 8 (drop_bit 16 (take_bit 24 x)) = take_bit 8 (drop_bit 16 x)"
    by (simp add: drop_bit_take_bit)
  then show ?thesis by (simp add: take_bit_eq_mod drop_bit_eq_div)
qed

lemma byte1_of_low24: "(x::int) mod 16777216 div 256 mod 256 = x div 256 mod 256"
proof -
  have "take_bit 8 (drop_bit 8 (take_bit 24 x)) = take_bit 8 (drop_bit 8 x)"
    by (simp add: drop_bit_take_bit)
  then show ?thesis by (simp add: take_bit_eq_mod drop_bit_eq_div)
qed

lemma byte0_of_low24: "(x::int) mod 16777216 mod 256 = x mod 256"
proof -
  have "take_bit 8 (take_bit 24 x) = take_bit 8 x"
    by simp
  then show ?thesis by (simp only: take_bit_eq_mod) simp
qed

lemma bytes_of_masked:
  fixes w :: "32 word"
  shows "uint (signed_drop_bit 16 (w AND 0xffffff) AND 0xff) = red_byte w"
    and "uint (signed_drop_bit 8 (w AND 0xffffff) AND 0xff) = green_byte w"
    and "uint ((w AND 0xffffff) AND 0xff) = blue_byte w"
proof -
  have nb: "\<not> bit (w AND 0xffffff) 31" by (simp add: bit_and_iff)
  have m: "uint (w AND 0xffffff) = uint w mod 16777216" by (rule uint_and_ffffff)
  show "uint (signed_drop_bit 16 (w AND 0xffffff) AND 0xff) = red_byte w"
    unfolding sdb_nonneg [OF nb] uint_and_ff uint_drop_bit32 m red_byte_def
    by (rule byte2_of_low24)
  show "uint (signed_drop_bit 8 (w AND 0xffffff) AND 0xff) = green_byte w"
    unfolding sdb_nonneg [OF nb] uint_and_ff uint_drop_bit32 m green_byte_def
    by (rule byte1_of_low24)
  show "uint ((w AND 0xffffff) AND 0xff) = blue_byte w"
    unfolding uint_and_ff m blue_byte_def
    by (rule byte0_of_low24)
qed

lemma byte_bounds:
  "0 \<le> red_byte c" "red_byte c \<le> 255" "0 \<le> green_byte c" "green_byte c \<le> 255"
  "0 \<le> blue_byte c" "blue_byte c \<le> 255"
  by (simp_all add: red_byte_def green_byte_def blue_byte_def)

text \<open>The weighted sum of three bytes is at most 65280, so it does not wrap.\<close>

lemma luma_word:
  fixes r g b :: "32 word"
  assumes "uint r \<le> 255" "uint g \<le> 255" "uint b \<le> 255"
  shows "uint (77 * r + 150 * g + 29 * b) = 77 * uint r + 150 * uint g + 29 * uint b"
proof -
  have "uint (77 * r + 150 * g + 29 * b) = (77 * uint r + 150 * uint g + 29 * uint b) mod 4294967296"
    by (simp add: uint_word_ariths mod_simps)
  also have "\<dots> = 77 * uint r + 150 * uint g + 29 * uint b"
    using assms by (intro mod_pos_pos_trivial) simp_all
  finally show ?thesis .
qed

section \<open>Brightness of a colour\<close>

lemma rgb_to_brightness_uint:
  "uint (rgb_to_brightness st) =
     (77 * red_byte (color st) + 150 * green_byte (color st) + 29 * blue_byte (color st)) div 256"
proof -
  let ?c = "color st AND 0xffffff"
  let ?r = "signed_drop_bit 16 ?c AND 0xff" and ?g = "signed_drop_bit 8 ?c AND 0xff"
    and ?b = "?c AND 0xff"
  let ?S = "77 * ?r + 150 * ?g + 29 * ?b"
  have S: "uint ?S = 77 * red_byte (color st) + 150 * green_byte (color st) + 29 * blue_byte (color st)"
    using byte_bounds [of "color st"]
    by (subst luma_word) (simp_all only: bytes_of_masked)
  then have "uint ?S < 2147483648" using byte_bounds [of "color st"] by simp
  then have "signed_drop_bit 8 ?S = drop_bit 8 ?S" by (intro sdb_nonneg small_no_sign)
  then show ?thesis
    by (simp only: rgb_to_brightness_def Let_def uint_drop_bit32 S)
qed

lemma rgb_to_brightness_range:
  "0 \<le> uint (rgb_to_brightness st)" "uint (rgb_to_brightness st) \<le> 255"
  using byte_bounds [of "color st"] by (simp_all add: rgb_to_brightness_uint)

lemma rgb_to_brightness_sint: "sint (rgb_to_brightness st) = uint (rgb_to_brightness st)"
  using rgb_to_brightness_range [of st] by (intro sint_small) simp

lemma and_low24_idem: "(c AND 0xffffff) AND 0xffffff = (c :: 32 word) AND 0xffffff"
  by (simp add: and.assoc)

text \<open>
  C3. For every colour, with R, G and B its bytes at bits 16-23, 8-15 and 0-7,
  \<open>rgb_to_brightness\<close> returns \<open>(77*R + 150*G + 29*B) >> 8\<close>; clearing the bits
  above bit 23 of the colour does not change the result; and the result, read as the
  signed \<open>int\<close> the function returns, lies between 0 and 255.
\<close>

theorem rgb_to_brightness_luma:
  "sint (rgb_to_brightness st) =
     (77 * red_byte (color st) + 150 * green_byte (color st) + 29 * blue_byte (color st)) div 256
   \<and> rgb_to_brightness (st\<lparr>color := color st AND 0x00ffffff\<rparr>) = rgb_to_brightness st
   \<and> 0 \<le> sint (rgb_to_brightness st) \<and> sint (rgb_to_brightness st) \<le> 255"
proof (intro conjI)
  show "sint (rgb_to_brightness st) =
     (77 * red_byte (color st) + 150 * green_byte (color st) + 29 * blue_byte (color st)) div 256"
    by (simp only: rgb_to_brightness_sint rgb_to_brightness_uint)
  show "rgb_to_brightness (st\<lparr>color := color st AND 0x00ffffff\<rparr>) = rgb_to_brightness st"
    by (simp add: rgb_to_brightness_def and_low24_idem)
  show "0 \<le> sint (rgb_to_brightness st)" "sint (rgb_to_brightness st) \<le> 255"
    using rgb_to_brightness_range [of st] by (simp_all only: rgb_to_brightness_sint)
qed

theorem rgb_to_brightness_luma_witness:
  "rgb_to_brightness pure_white = 255 \<and>
   sint (rgb_to_brightness pure_white) = (77 * 255 + 150 * 255 + 29 * 255) div 256"
  using rgb_to_brightness_luma [of pure_white]
  by (simp add: pure_white_def rgb_to_brightness_def red_byte_def green_byte_def blue_byte_def)

section \<open>One device write\<close>

lemma write_int_result:
  "fst (write_int os path v s) = io_result (os (trace s) path (Int_line v))"
  by (simp add: write_int_def Let_def split: io_outcome.split)

lemma write_int_trace:
  "trace (snd (write_int os path v s)) =
     trace s @ [Write path (Int_line v) (io_result (os (trace s) path (Int_line v)))]"
  by (simp add: write_int_def Let_def split: io_outcome.split)

lemma write_int_store: "led_store (snd (write_int os path v s)) = led_store s"
  by (simp add: write_int_def led_store_def Let_def split: io_outcome.split)



lemma write_str_store: "led_store (snd (write_str os path str s)) = led_store s"
  by (simp add: write_str_def led_store_def Let_def split: io_outcome.split)

lemma write_payload_simps:
  "write_payload os path (Str str) s = write_str os path str s"
  "write_payload os path (Int_line v) s = write_int os path v s"
  by (simp_all add: write_payload_def)



lemma write_payload_store: "led_store (snd (write_payload os path d s)) = led_store s"
  by (cases d) (simp_all add: write_payload_simps write_int_store write_str_store)

text \<open>
  A failure of \<open>open\<close> or \<open>write\<close> sets \<open>errno\<close> to a positive number, and
  the code the writer returns is then negative.
\<close>

lemma neg_of_pos: "0 <s (e :: 32 word) \<Longrightarrow> - e <s 0"
proof -
  assume a: "0 <s e"
  then have p: "0 < sint e" by (simp add: word_sless_alt)
  have u: "sint e \<le> 2147483647" using sint_lt [of e] by simp
  have "sint (- e) = signed_take_bit 31 (- sint e)"
    by (simp add: sint_word_ariths)
  also have "\<dots> = - sint e"
    using p u by (intro signed_take_bit_int_eq_self) simp_all
  finally show ?thesis using p by (simp add: word_sless_alt)
qed

lemma io_result_failure:
  "0 <s e \<Longrightarrow> io_result (Open_failed e) <s 0 \<and> io_result (Write_failed e) <s 0"
  by (simp add: io_result_def neg_of_pos)

subsection \<open>The lock around a write\<close>

lemma unlock_store: "led_store (pthread_mutex_unlock s) = led_store s"
  by (simp add: pthread_mutex_unlock_def led_store_def)

lemma lock_store: "led_store (pthread_mutex_lock s) = led_store s"
  by (simp add: pthread_mutex_lock_def led_store_def)

lemma lock_trace: "trace (pthread_mutex_lock s) = trace s @ [Lock]"
  by (simp add: pthread_mutex_lock_def)

lemma unlock_trace: "trace (pthread_mutex_unlock s) = trace s @ [Unlock]"
  by (simp add: pthread_mutex_unlock_def)

text \<open>One write between taking and releasing the lock, as four handlers do it.\<close>

lemma locked_write_int:
  "trace (pthread_mutex_unlock (snd (write_int os path v (pthread_mutex_lock s)))) =
     trace s @ [Lock, Write path (Int_line v) (io_result (os (trace s @ [Lock]) path (Int_line v))),
                Unlock]"
  "fst (write_int os path v (pthread_mutex_lock s)) =
     io_result (os (trace s @ [Lock]) path (Int_line v))"
  "led_store (pthread_mutex_unlock (snd (write_int os path v (pthread_mutex_lock s)))) = led_store s"
  by (simp_all add: unlock_trace write_int_trace write_int_result lock_trace unlock_store
      write_int_store lock_store)

lemma events_sinceI: "trace s' = trace s @ es \<Longrightarrow> events_since s s' = es"
  by (simp add: events_since_def)

section \<open>Writes in order\<close>

lemma write_in_order_store: "led_store (snd (write_in_order os ws s)) = led_store s"
proof (induction ws arbitrary: s)
  case Nil
  show ?case by simp
next
  case (Cons w ws)
  obtain path d where w: "w = (path, d)" by (cases w)
  obtain r s1 where p: "write_payload os path d s = (r, s1)" by (cases "write_payload os path d s")
  have "led_store s1 = led_store s" using write_payload_store [of os path d s] p by simp
  with Cons.IH [of s1] show ?case by (simp add: w p)
qed


text \<open>The first failing write ends the sequence, whatever follows it in the list.\<close>

lemma write_in_order_abort:
  assumes "fst (write_payload os path d s) <s 0"
  shows "write_in_order os ((path, d) # ws) s = write_payload os path d s"
  using assms by (cases "write_payload os path d s") simp

section \<open>The arbiter\<close>

lemma set_led_in_order:
  "set_led os dir battery notifications s =
     write_in_order os (led_writes dir (set_led_state battery notifications)) s"
  by (simp add: set_led_def led_writes_def blink_writes_def solid_writes_def off_writes_def
      write_payload_simps write_df_str_def write_df_int_def Let_def
      split: option.split prod.split)

lemma set_led_store: "led_store (snd (set_led os dir battery notifications s)) = led_store s"
  by (simp only: set_led_in_order write_in_order_store)


text \<open>
  C1. For either LED, whatever the delays stored in the two records: when the
  notifications record is enabled, the arbiter's \<open>state\<close> is the notifications
  record and the writes are those for it; otherwise, when the battery record is enabled,
  it is the battery record; otherwise there is no winning state and the writes are those
  for "no source".
\<close>

theorem set_led_priority:
  "(enabled notifications \<noteq> 0 \<longrightarrow>
      set_led_state battery notifications = Some notifications
      \<and> set_led os dir battery notifications s =
          write_in_order os (led_writes dir (Some notifications)) s)
   \<and> (enabled notifications = 0 \<and> enabled battery \<noteq> 0 \<longrightarrow>
      set_led_state battery notifications = Some battery
      \<and> set_led os dir battery notifications s =
          write_in_order os (led_writes dir (Some battery)) s)
   \<and> (enabled notifications = 0 \<and> enabled battery = 0 \<longrightarrow>
      set_led_state battery notifications = None
      \<and> set_led os dir battery notifications s = write_in_order os (led_writes dir None) s)"
  by (simp add: set_led_in_order) (simp add: set_led_state_def)

lemma df_path_short:
  "length dir + length file < 4095 \<Longrightarrow> df_path dir file = dir @ ''/'' @ file"
  by (simp add: df_path_def PATH_MAX_def)

theorem set_led_priority_witness:
  "set_led_state led_solid led_blink = Some led_blink
   \<and> set_led_state led_blink led_off_stale = Some led_blink
   \<and> set_led_state led_off_stale led_off_stale = None
   \<and> trace (snd (set_led always_ok RED_LED_DIR led_solid led_blink lights_init)) =
       [Write ''/sys/class/leds/red/trigger'' (Str ''notification'') 0,
        Write ''/sys/class/leds/red/brightness'' (Str ''255'') 0,
        Write ''/sys/class/leds/red/blink_count'' (Str ''1'') 0,
        Write ''/sys/class/leds/red/delay_on'' (Int_line 500) 0,
        Write ''/sys/class/leds/red/delay_off'' (Int_line 500) 0]"
  using set_led_priority [of led_blink led_solid always_ok RED_LED_DIR lights_init]
        set_led_priority [of led_off_stale led_blink always_ok RED_LED_DIR lights_init]
        set_led_priority [of led_off_stale led_off_stale always_ok RED_LED_DIR lights_init]
  by (simp add: led_solid_def led_blink_def led_off_stale_def led_writes_def blink_writes_def
      df_path_short RED_LED_DIR_def write_payload_simps write_str_def write_int_def
      always_ok_def io_result_def lights_init_def Let_def word_sless_alt)

lemma write_in_order_append:
  "write_in_order os (pre @ rest) s =
     (if fst (write_in_order os pre s) <s 0 then write_in_order os pre s
      else write_in_order os rest (snd (write_in_order os pre s)))"
proof (induction pre arbitrary: s)
  case Nil
  show ?case by (simp add: word_sless_alt)
next
  case (Cons w pre)
  obtain path d where w: "w = (path, d)" by (cases w)
  obtain r s1 where p: "write_payload os path d s = (r, s1)" by (cases "write_payload os path d s")
  show ?case using Cons.IH [of s1] by (simp add: w p)
qed

text \<open>
  C4. When the arbiter has a winning state with both delays positive, \<open>set_led\<close>
  attempts exactly trigger="notification", brightness="255", blink_count="1",
  delay_on and delay_off with the state's values, in that order; when no source is
  enabled, exactly trigger="none", brightness="0". In every case the writes are attempted
  in order, and as soon as one of them fails the call ends in the state that write left,
  with that write's code as its result: the writes after it are not attempted. A write
  fails when its code is negative, which is the case whenever \<open>open\<close> or \<open>write\<close>
  fails with a positive \<open>errno\<close>.
\<close>

theorem set_led_write_sequence:
  "(set_led_state battery notifications = Some state
      \<and> 0 <s delay_on state \<and> 0 <s delay_off state \<longrightarrow>
      set_led os dir battery notifications s =
        write_in_order os
          [(df_path dir ''trigger'', Str ''notification''),
           (df_path dir ''brightness'', Str ''255''),
           (df_path dir ''blink_count'', Str ''1''),
           (df_path dir ''delay_on'', Int_line (delay_on state)),
           (df_path dir ''delay_off'', Int_line (delay_off state))] s)
   \<and> (set_led_state battery notifications = None \<longrightarrow>
      set_led os dir battery notifications s =
        write_in_order os
          [(df_path dir ''trigger'', Str ''none''), (df_path dir ''brightness'', Str ''0'')] s)
   \<and> set_led os dir battery notifications s =
        write_in_order os (led_writes dir (set_led_state battery notifications)) s
   \<and> (led_writes dir (set_led_state battery notifications) = pre @ (path, d) # rest
      \<and> \<not> fst (write_in_order os pre s) <s 0
      \<and> fst (write_payload os path d (snd (write_in_order os pre s))) <s 0 \<longrightarrow>
      set_led os dir battery notifications s =
        write_payload os path d (snd (write_in_order os pre s)))
   \<and> (0 <s e \<longrightarrow> io_result (Open_failed e) <s 0 \<and> io_result (Write_failed e) <s 0)"
proof (intro conjI impI)
  assume "set_led_state battery notifications = Some state
      \<and> 0 <s delay_on state \<and> 0 <s delay_off state"
  then show "set_led os dir battery notifications s =
        write_in_order os
          [(df_path dir ''trigger'', Str ''notification''),
           (df_path dir ''brightness'', Str ''255''),
           (df_path dir ''blink_count'', Str ''1''),
           (df_path dir ''delay_on'', Int_line (delay_on state)),
           (df_path dir ''delay_off'', Int_line (delay_off state))] s"
    by (simp add: set_led_in_order led_writes_def blink_writes_def)
next
  assume "set_led_state battery notifications = None"
  then show "set_led os dir battery notifications s =
        write_in_order os
          [(df_path dir ''trigger'', Str ''none''), (df_path dir ''brightness'', Str ''0'')] s"
    by (simp add: set_led_in_order led_writes_def off_writes_def)
next
  show "set_led os dir battery notifications s =
        write_in_order os (led_writes dir (set_led_state battery notifications)) s"
    by (rule set_led_in_order)
next
  assume a: "led_writes dir (set_led_state battery notifications) = pre @ (path, d) # rest
      \<and> \<not> fst (write_in_order os pre s) <s 0
      \<and> fst (write_payload os path d (snd (write_in_order os pre s))) <s 0"
  then have "write_in_order os (pre @ (path, d) # rest) s =
      write_in_order os ((path, d) # rest) (snd (write_in_order os pre s))"
    by (simp only: write_in_order_append if_False)
  also have "\<dots> = write_payload os path d (snd (write_in_order os pre s))"
    using a by (intro write_in_order_abort) simp
  finally show "set_led os dir battery notifications s =
        write_payload os path d (snd (write_in_order os pre s))"
    using a by (simp only: set_led_in_order)
next
  assume "0 <s e"
  then show "io_result (Open_failed e) <s 0" and "io_result (Write_failed e) <s 0"
    by (simp_all add: io_result_failure)
qed

lemmas eval_writes =
  led_writes_def blink_writes_def solid_writes_def off_writes_def df_path_short
  write_payload_simps write_str_def write_int_def io_result_def Let_def word_sless_alt
  word_sle_eq

theorem set_led_write_sequence_witness:
  "set_led always_ok RED_LED_DIR led_solid led_blink lights_init =
     (0, lights_init\<lparr>trace :=
        [Write ''/sys/class/leds/red/trigger'' (Str ''notification'') 0,
         Write ''/sys/class/leds/red/brightness'' (Str ''255'') 0,
         Write ''/sys/class/leds/red/blink_count'' (Str ''1'') 0,
         Write ''/sys/class/leds/red/delay_on'' (Int_line 500) 0,
         Write ''/sys/class/leds/red/delay_off'' (Int_line 500) 0]\<rparr>)
   \<and> set_led always_ok RED_LED_DIR led_off_stale led_off_stale lights_init =
     (0, lights_init\<lparr>trace :=
        [Write ''/sys/class/leds/red/trigger'' (Str ''none'') 0,
         Write ''/sys/class/leds/red/brightness'' (Str ''0'') 0]\<rparr>)
   \<and> set_led red_brightness_denied RED_LED_DIR led_solid led_blink lights_init =
     (- 13, lights_init\<lparr>write_str_warned := True, trace :=
        [Write ''/sys/class/leds/red/trigger'' (Str ''notification'') 0,
         Write ''/sys/class/leds/red/brightness'' (Str ''255'') (- 13)]\<rparr>)"
  using set_led_write_sequence [of led_solid led_blink led_blink always_ok RED_LED_DIR
          lights_init "[]" "df_path RED_LED_DIR ''trigger''" "Str ''notification''" "[]" 13]
        set_led_write_sequence [of led_off_stale led_off_stale led_blink always_ok RED_LED_DIR
          lights_init "[]" "df_path RED_LED_DIR ''trigger''" "Str ''notification''" "[]" 13]
        set_led_write_sequence [of led_solid led_blink led_blink red_brightness_denied RED_LED_DIR
          lights_init "[(df_path RED_LED_DIR ''trigger'', Str ''notification'')]"
          "df_path RED_LED_DIR ''brightness''" "Str ''255''"
          "[(df_path RED_LED_DIR ''blink_count'', Str ''1''),
            (df_path RED_LED_DIR ''delay_on'', Int_line 500),
            (df_path RED_LED_DIR ''delay_off'', Int_line 500)]" 13]
  by (simp add: set_led_state_def led_solid_def led_blink_def led_off_stale_def eval_writes
      RED_LED_DIR_def always_ok_def red_brightness_denied_def lights_init_def)

section \<open>The translator\<close>

lemma red_bits_zero_iff: "(drop_bit 16 (c :: 32 word) AND 0xff = 0) = (red_byte c = 0)"
proof -
  have "(drop_bit 16 c AND 0xff = 0) = (uint (drop_bit 16 c AND 0xff) = 0)"
    by (simp only: uint_0_iff)
  then show ?thesis by (simp only: uint_and_ff uint_drop_bit32 red_byte_def)
qed

lemma blue_bits_zero_iff: "((c :: 32 word) AND 0xff = 0) = (blue_byte c = 0)"
proof -
  have "(c AND 0xff = 0) = (uint (c AND 0xff) = 0)"
    by (simp only: uint_0_iff)
  then show ?thesis by (simp only: uint_and_ff blue_byte_def)
qed

lemma comp_led_states_red:
  "fst (comp_led_states st) =
     \<lparr>enabled = (if red_byte (color st) = 0 then 0 else 1),
      delay_on = (if flashMode st = LIGHT_FLASH_TIMED then flashOnMS st else 0),
      delay_off = (if flashMode st = LIGHT_FLASH_TIMED then flashOffMS st else 0)\<rparr>"
  by (simp add: comp_led_states_def Let_def red_bits_zero_iff)

lemma comp_led_states_blue:
  "snd (comp_led_states st) =
     \<lparr>enabled = (if blue_byte (color st) = 0 then 0 else 1),
      delay_on = (if flashMode st = LIGHT_FLASH_TIMED then flashOnMS st else 0),
      delay_off = (if flashMode st = LIGHT_FLASH_TIMED then flashOffMS st else 0)\<rparr>"
  by (simp add: comp_led_states_def Let_def blue_bits_zero_iff)

text \<open>
  C2. For every request: with flash mode TIMED both records get the request's
  (flashOnMS, flashOffMS) as their delays, with any other flash mode both delays are 0;
  the red record is enabled exactly when the colour's red byte is non-zero and the blue
  record exactly when its blue byte is non-zero; two colours with the same red and blue
  bytes give the same two records, so the green byte plays no part.
\<close>

theorem comp_led_states_translation:
  "(flashMode st = LIGHT_FLASH_TIMED \<longrightarrow>
      delay_on (fst (comp_led_states st)) = flashOnMS st
      \<and> delay_off (fst (comp_led_states st)) = flashOffMS st
      \<and> delay_on (snd (comp_led_states st)) = flashOnMS st
      \<and> delay_off (snd (comp_led_states st)) = flashOffMS st)
   \<and> (flashMode st \<noteq> LIGHT_FLASH_TIMED \<longrightarrow>
      delay_on (fst (comp_led_states st)) = 0 \<and> delay_off (fst (comp_led_states st)) = 0
      \<and> delay_on (snd (comp_led_states st)) = 0 \<and> delay_off (snd (comp_led_states st)) = 0)
   \<and> (enabled (fst (comp_led_states st)) \<noteq> 0) = (red_byte (color st) \<noteq> 0)
   \<and> (enabled (snd (comp_led_states st)) \<noteq> 0) = (blue_byte (color st) \<noteq> 0)
   \<and> (red_byte c' = red_byte (color st) \<and> blue_byte c' = blue_byte (color st) \<longrightarrow>
      comp_led_states (st\<lparr>color := c'\<rparr>) = comp_led_states st)"
proof (intro conjI impI)
  assume "red_byte c' = red_byte (color st) \<and> blue_byte c' = blue_byte (color st)"
  then have "fst (comp_led_states (st\<lparr>color := c'\<rparr>)) = fst (comp_led_states st)"
    and "snd (comp_led_states (st\<lparr>color := c'\<rparr>)) = snd (comp_led_states st)"
    by (simp_all add: comp_led_states_red comp_led_states_blue)
  then show "comp_led_states (st\<lparr>color := c'\<rparr>) = comp_led_states st"
    by (rule prod_eqI)
qed (simp_all add: comp_led_states_red comp_led_states_blue)

theorem comp_led_states_translation_witness:
  "comp_led_states blink_purple =
     (\<lparr>enabled = 1, delay_on = 300, delay_off = 700\<rparr>,
      \<lparr>enabled = 1, delay_on = 300, delay_off = 700\<rparr>)
   \<and> comp_led_states solid_green =
     (\<lparr>enabled = 0, delay_on = 0, delay_off = 0\<rparr>, \<lparr>enabled = 0, delay_on = 0, delay_off = 0\<rparr>)
   \<and> comp_led_states (black\<lparr>color := 0x00ff00\<rparr>) = comp_led_states black"
  using comp_led_states_translation [of blink_purple "0xff00ff"]
        comp_led_states_translation [of solid_green "0x00ff00"]
        comp_led_states_translation [of black "0x00ff00"]
  by (simp add: blink_purple_def solid_green_def black_def comp_led_states_def
      LIGHT_FLASH_TIMED_def LIGHT_FLASH_NONE_def red_byte_def blue_byte_def Let_def)

section \<open>The battery and notifications handlers\<close>

lemma sle_iff_not_sless: "(0 \<le>s (r :: 32 word)) = (\<not> r <s 0)"
  by (simp add: word_sle_eq word_sless_alt not_less)

lemma set_light_battery_steps:
  "set_light_battery os st s =
     (let s0 = battery_recomputed st s;
          (r, s1) = set_led os RED_LED_DIR (battery_red s0) (notifications_red s0) s0
      in if r <s 0 then (r, pthread_mutex_unlock s1)
         else (let (r2, s2) = set_led os BLUE_LED_DIR (battery_blue s1) (notifications_blue s1) s1
               in (r2, pthread_mutex_unlock s2)))"
  by (simp add: set_light_battery_def battery_recomputed_def pthread_mutex_lock_def
      sle_iff_not_sless Let_def split: prod.split)

lemma set_light_notifications_steps:
  "set_light_notifications os st s =
     (let s0 = notifications_recomputed st s;
          (r, s1) = set_led os RED_LED_DIR (battery_red s0) (notifications_red s0) s0
      in if r <s 0 then (r, pthread_mutex_unlock s1)
         else (let (r2, s2) = set_led os BLUE_LED_DIR (battery_blue s1) (notifications_blue s1) s1
               in (r2, pthread_mutex_unlock s2)))"
  by (simp add: set_light_notifications_def notifications_recomputed_def pthread_mutex_lock_def
      sle_iff_not_sless Let_def split: prod.split)

lemma set_light_battery_store:
  "led_store (snd (set_light_battery os st s)) =
     (fst (comp_led_states st), snd (comp_led_states st), notifications_red s, notifications_blue s)"
proof -
  let ?s0 = "battery_recomputed st s"
  obtain r s1 where red: "set_led os RED_LED_DIR (battery_red ?s0) (notifications_red ?s0) ?s0 = (r, s1)"
    by (cases "set_led os RED_LED_DIR (battery_red ?s0) (notifications_red ?s0) ?s0")
  obtain r2 s2 where blue: "set_led os BLUE_LED_DIR (battery_blue s1) (notifications_blue s1) s1 = (r2, s2)"
    by (cases "set_led os BLUE_LED_DIR (battery_blue s1) (notifications_blue s1) s1")
  have s0: "led_store ?s0 =
     (fst (comp_led_states st), snd (comp_led_states st), notifications_red s, notifications_blue s)"
    by (simp add: battery_recomputed_def led_store_def)
  have s1: "led_store s1 = led_store ?s0"
    using set_led_store [of os RED_LED_DIR "battery_red ?s0" "notifications_red ?s0" ?s0] red by simp
  have s2: "led_store s2 = led_store s1"
    using set_led_store [of os BLUE_LED_DIR "battery_blue s1" "notifications_blue s1" s1] blue by simp
  show ?thesis
    by (simp add: set_light_battery_steps red blue unlock_store s0 s1 s2)
qed

lemma set_light_notifications_store:
  "led_store (snd (set_light_notifications os st s)) =
     (battery_red s, battery_blue s, fst (comp_led_states st), snd (comp_led_states st))"
proof -
  let ?s0 = "notifications_recomputed st s"
  obtain r s1 where red: "set_led os RED_LED_DIR (battery_red ?s0) (notifications_red ?s0) ?s0 = (r, s1)"
    by (cases "set_led os RED_LED_DIR (battery_red ?s0) (notifications_red ?s0) ?s0")
  obtain r2 s2 where blue: "set_led os BLUE_LED_DIR (battery_blue s1) (notifications_blue s1) s1 = (r2, s2)"
    by (cases "set_led os BLUE_LED_DIR (battery_blue s1) (notifications_blue s1) s1")
  have s0: "led_store ?s0 =
     (battery_red s, battery_blue s, fst (comp_led_states st), snd (comp_led_states st))"
    by (simp add: notifications_recomputed_def led_store_def)
  have s1: "led_store s1 = led_store ?s0"
    using set_led_store [of os RED_LED_DIR "battery_red ?s0" "notifications_red ?s0" ?s0] red by simp
  have s2: "led_store s2 = led_store s1"
    using set_led_store [of os BLUE_LED_DIR "battery_blue s1" "notifications_blue s1" s1] blue by simp
  show ?thesis
    by (simp add: set_light_notifications_steps red blue unlock_store s0 s1 s2)
qed

lemma led_store_fields:
  "led_store s = (a, b, c, d) \<Longrightarrow>
     battery_red s = a \<and> battery_blue s = b \<and> notifications_red s = c \<and> notifications_blue s = d"
  by (simp add: led_store_def)

lemma nonneg_pos_iff: "0 \<le>s (w :: 32 word) \<Longrightarrow> (0 <s w) = (w \<noteq> 0)"
  by (auto simp add: word_sle_eq word_sless_alt signed_eq_0_iff order_less_le)

lemma delays_consistent_comp:
  assumes "0 \<le>s flashOnMS st" "0 \<le>s flashOffMS st"
  shows "delays_consistent (fst (comp_led_states st)) =
           (flashMode st = LIGHT_FLASH_TIMED \<longrightarrow> (flashOnMS st = 0) = (flashOffMS st = 0))"
    and "delays_consistent (snd (comp_led_states st)) =
           (flashMode st = LIGHT_FLASH_TIMED \<longrightarrow> (flashOnMS st = 0) = (flashOffMS st = 0))"
  using nonneg_pos_iff [OF assms(1)] nonneg_pos_iff [OF assms(2)]
  by (auto simp add: delays_consistent_def comp_led_states_red comp_led_states_blue)

text \<open>
  C5, amended. For a request with non-negative flashOnMS and flashOffMS, each record a
  battery or notifications call stores has its delays both zero or both positive exactly
  when the flash mode is not TIMED or the request's two times are both zero or both
  non-zero. (A TIMED request stores its two times as they are.)
\<close>

theorem stored_delays_consistent:
  assumes "0 \<le>s flashOnMS st" and "0 \<le>s flashOffMS st"
  shows "delays_consistent (battery_red (snd (set_light_battery os st s)))
           = (flashMode st = LIGHT_FLASH_TIMED \<longrightarrow> (flashOnMS st = 0) = (flashOffMS st = 0))
         \<and> delays_consistent (battery_blue (snd (set_light_battery os st s)))
           = (flashMode st = LIGHT_FLASH_TIMED \<longrightarrow> (flashOnMS st = 0) = (flashOffMS st = 0))
         \<and> delays_consistent (notifications_red (snd (set_light_notifications os st s)))
           = (flashMode st = LIGHT_FLASH_TIMED \<longrightarrow> (flashOnMS st = 0) = (flashOffMS st = 0))
         \<and> delays_consistent (notifications_blue (snd (set_light_notifications os st s)))
           = (flashMode st = LIGHT_FLASH_TIMED \<longrightarrow> (flashOnMS st = 0) = (flashOffMS st = 0))"
proof -
  note b = led_store_fields [OF set_light_battery_store [of os st s]]
  note n = led_store_fields [OF set_light_notifications_store [of os st s]]
  show ?thesis
    by (simp only: b n delays_consistent_comp [OF assms] simp_thms)
qed

theorem stored_delays_consistent_witness:
  "delays_consistent (battery_red (snd (set_light_battery always_ok blink_purple lights_init)))
   \<and> delays_consistent (notifications_blue (snd (set_light_notifications always_ok solid_red lights_init)))
   \<and> \<not> delays_consistent (battery_blue (snd (set_light_battery always_ok timed_on_zero lights_init)))"
proof -
  have p: "0 \<le>s flashOnMS blink_purple" "0 \<le>s flashOffMS blink_purple"
    by (simp_all add: blink_purple_def word_sle_eq)
  have r: "0 \<le>s flashOnMS solid_red" "0 \<le>s flashOffMS solid_red"
    by (simp_all add: solid_red_def word_sle_eq)
  have z: "0 \<le>s flashOnMS timed_on_zero" "0 \<le>s flashOffMS timed_on_zero"
    by (simp_all add: timed_on_zero_def word_sle_eq)
  show ?thesis
    using stored_delays_consistent [OF p, of always_ok lights_init]
          stored_delays_consistent [OF r, of always_ok lights_init]
          stored_delays_consistent [OF z, of always_ok lights_init]
    by (simp add: blink_purple_def solid_red_def timed_on_zero_def LIGHT_FLASH_TIMED_def
        LIGHT_FLASH_NONE_def)
qed

text \<open>
  C5 as stated fails: a TIMED request with flashOnMS 0 and flashOffMS 500 stores a record
  with one delay zero and the other positive.
\<close>

theorem mixed_delays_counterexample:
  "0 \<le>s flashOnMS timed_on_zero \<and> 0 \<le>s flashOffMS timed_on_zero
   \<and> \<not> delays_consistent (battery_red (snd (set_light_battery always_ok timed_on_zero lights_init)))"
  by (simp add: led_store_fields [OF set_light_battery_store] comp_led_states_red
      delays_consistent_def timed_on_zero_def word_sle_eq word_sless_alt)

text \<open>
  C6. In a battery call and in a notifications call alike: when the red-LED arbitration
  returns a negative code, the call returns that code and ends in the state the red
  arbitration left, with only the lock released, so the blue-LED arbitration does not
  run; otherwise the call returns what the blue-LED arbitration returns.
\<close>

theorem red_failure_short_circuit:
  "(let s0 = battery_recomputed st s;
        (r, s1) = set_led os RED_LED_DIR (battery_red s0) (notifications_red s0) s0
    in (r <s 0 \<longrightarrow> set_light_battery os st s = (r, pthread_mutex_unlock s1))
       \<and> (\<not> r <s 0 \<longrightarrow>
            set_light_battery os st s =
              (let (r2, s2) = set_led os BLUE_LED_DIR (battery_blue s1) (notifications_blue s1) s1
               in (r2, pthread_mutex_unlock s2))))
   \<and> (let s0 = notifications_recomputed st s;
        (r, s1) = set_led os RED_LED_DIR (battery_red s0) (notifications_red s0) s0
    in (r <s 0 \<longrightarrow> set_light_notifications os st s = (r, pthread_mutex_unlock s1))
       \<and> (\<not> r <s 0 \<longrightarrow>
            set_light_notifications os st s =
              (let (r2, s2) = set_led os BLUE_LED_DIR (battery_blue s1) (notifications_blue s1) s1
               in (r2, pthread_mutex_unlock s2))))"
  by (simp add: set_light_battery_steps set_light_notifications_steps Let_def split: prod.split)

lemmas eval_handlers =
  battery_recomputed_def notifications_recomputed_def set_led_in_order set_led_state_def
  comp_led_states_def pthread_mutex_unlock_def pthread_mutex_lock_def
  RED_LED_DIR_def BLUE_LED_DIR_def LIGHT_FLASH_TIMED_def LIGHT_FLASH_NONE_def
  lights_init_def led_state_zero_def

theorem red_failure_short_circuit_witness:
  "set_light_battery red_trigger_denied blink_purple lights_init =
     (- 13,
      lights_init\<lparr>battery_red := \<lparr>enabled = 1, delay_on = 300, delay_off = 700\<rparr>,
        battery_blue := \<lparr>enabled = 1, delay_on = 300, delay_off = 700\<rparr>,
        write_str_warned := True,
        trace := [Lock, Recompute Battery,
                  Write ''/sys/class/leds/red/trigger'' (Str ''notification'') (- 13),
                  Unlock]\<rparr>)
   \<and> fst (set_light_notifications always_ok solid_red lights_init) = 0"
  using red_failure_short_circuit [of blink_purple lights_init red_trigger_denied]
        red_failure_short_circuit [of solid_red lights_init always_ok]
  by (simp add: eval_handlers eval_writes blink_purple_def solid_red_def
      red_trigger_denied_def always_ok_def)

section \<open>The keyboard, buttons and backlight handlers\<close>

lemma low24_split:
  "(x::int) mod 16777216 = 65536 * (x div 65536 mod 256) + (256 * (x div 256 mod 256) + x mod 256)"
proof -
  have a: "x mod (65536 * 256) = 65536 * (x div 65536 mod 256) + x mod 65536"
    by (rule zmod_zmult2_eq) simp
  have b: "x mod (256 * 256) = 256 * (x div 256 mod 256) + x mod 256"
    by (rule zmod_zmult2_eq) simp
  from a b show ?thesis by simp
qed

lemma low24_zero_iff:
  "((c :: 32 word) AND 0xffffff = 0) = (red_byte c = 0 \<and> green_byte c = 0 \<and> blue_byte c = 0)"
proof -
  have "(c AND 0xffffff = 0) = (uint (c AND 0xffffff) = 0)"
    by (simp only: uint_0_iff)
  also have "\<dots> = (65536 * red_byte c + (256 * green_byte c + blue_byte c) = 0)"
    by (simp only: uint_and_ffffff low24_split red_byte_def green_byte_def blue_byte_def)
  also have "\<dots> = (red_byte c = 0 \<and> green_byte c = 0 \<and> blue_byte c = 0)"
    using byte_bounds(1,3,5) [of c] by arith
  finally show ?thesis .
qed

lemma set_light_keyboard_unfold:
  "set_light_keyboard os st s =
     (let code = (if red_byte (color st) = 0 \<and> green_byte (color st) = 0
                     \<and> blue_byte (color st) = 0 then 2 else 1);
          w = write_int os KEYBOARD_FILE code (pthread_mutex_lock s)
      in (fst w, pthread_mutex_unlock (snd w)))"
  by (simp add: set_light_keyboard_def low24_zero_iff Let_def case_prod_unfold)

lemma set_light_keyboard_result:
  "fst (set_light_keyboard os st s) =
     io_result (os (trace s @ [Lock]) KEYBOARD_FILE
       (Int_line (if red_byte (color st) = 0 \<and> green_byte (color st) = 0
                     \<and> blue_byte (color st) = 0 then 2 else 1)))"
  by (simp add: set_light_keyboard_unfold locked_write_int Let_def)

lemma set_light_keyboard_trace:
  "trace (snd (set_light_keyboard os st s)) =
     trace s @ [Lock,
                Write KEYBOARD_FILE
                  (Int_line (if red_byte (color st) = 0 \<and> green_byte (color st) = 0
                                \<and> blue_byte (color st) = 0 then 2 else 1))
                  (fst (set_light_keyboard os st s)),
                Unlock]"
  by (simp add: set_light_keyboard_unfold locked_write_int Let_def)

text \<open>
  C8. The keyboard handler makes one write, to the keyboard control, under the lock: the
  control code 1 when one of the three colour bytes is non-zero and 2 when all are zero;
  what it returns is the code of that write.
\<close>

theorem set_light_keyboard_write:
  "events_since s (snd (set_light_keyboard os st s)) =
     [Lock,
      Write KEYBOARD_FILE
        (Int_line (if red_byte (color st) = 0 \<and> green_byte (color st) = 0
                      \<and> blue_byte (color st) = 0 then 2 else 1))
        (fst (set_light_keyboard os st s)),
      Unlock]
   \<and> fst (set_light_keyboard os st s) =
       io_result (os (trace s @ [Lock]) KEYBOARD_FILE
         (Int_line (if red_byte (color st) = 0 \<and> green_byte (color st) = 0
                       \<and> blue_byte (color st) = 0 then 2 else 1)))"
proof
  show "events_since s (snd (set_light_keyboard os st s)) =
     [Lock,
      Write KEYBOARD_FILE
        (Int_line (if red_byte (color st) = 0 \<and> green_byte (color st) = 0
                      \<and> blue_byte (color st) = 0 then 2 else 1))
        (fst (set_light_keyboard os st s)),
      Unlock]"
    by (rule events_sinceI) (rule set_light_keyboard_trace)
  show "fst (set_light_keyboard os st s) =
       io_result (os (trace s @ [Lock]) KEYBOARD_FILE
         (Int_line (if red_byte (color st) = 0 \<and> green_byte (color st) = 0
                       \<and> blue_byte (color st) = 0 then 2 else 1)))"
    by (rule set_light_keyboard_result)
qed

theorem set_light_keyboard_write_witness:
  "events_since lights_init (snd (set_light_keyboard always_ok black lights_init)) =
     [Lock, Write KEYBOARD_FILE (Int_line 2) 0, Unlock]
   \<and> events_since lights_init
        (snd (set_light_keyboard keyboard_and_voltage_denied (black\<lparr>color := 0x010000\<rparr>) lights_init)) =
     [Lock, Write KEYBOARD_FILE (Int_line 1) (- 13), Unlock]
   \<and> fst (set_light_keyboard keyboard_and_voltage_denied (black\<lparr>color := 0x010000\<rparr>) lights_init)
      = - 13"
  using set_light_keyboard_write [of lights_init always_ok black]
        set_light_keyboard_write [of lights_init keyboard_and_voltage_denied "black\<lparr>color := 0x010000\<rparr>"]
  by (simp add: black_def red_byte_def green_byte_def blue_byte_def always_ok_def
      keyboard_and_voltage_denied_def io_result_def lights_init_def)

lemma set_light_keyboard_store: "led_store (snd (set_light_keyboard os st s)) = led_store s"
  by (simp add: set_light_keyboard_unfold locked_write_int Let_def)

lemma set_light_backlight_store: "led_store (snd (set_light_backlight os st s)) = led_store s"
  by (simp add: set_light_backlight_def locked_write_int Let_def case_prod_unfold)


text \<open>
  The buttons handler, step by step: \<open>s1\<close> is the state after the keyboard call,
  \<open>s2\<close> the state after the voltage step, which writes only for a positive brightness.
\<close>

lemma set_light_buttons_unfold:
  "set_light_buttons os st s =
     (let s1 = snd (set_light_keyboard os st s);
          flag = (if red_byte (color st) = 0 \<and> green_byte (color st) = 0 \<and> blue_byte (color st) = 0
                  then 0 else 1);
          b = rgb_to_brightness st;
          s2 = (if 0 <s b
                then pthread_mutex_unlock (snd (write_int os BRIGHTNESS_FILE b (pthread_mutex_lock s1)))
                else s1);
          w = write_int os BUTTONS_FILE flag (pthread_mutex_lock s2)
      in (fst w, pthread_mutex_unlock (snd w)))"
  by (simp add: set_light_buttons_def low24_zero_iff Let_def case_prod_unfold)

text \<open>
  C7. The buttons handler first runs the keyboard handler; then, only when
  \<open>rgb_to_brightness\<close> of the request is positive, writes that brightness to the
  touch-LED voltage control; then writes the flag (1 when one of the three colour bytes is
  non-zero, 0 otherwise) to the buttons control. What it returns is the code of this last
  write, whatever the codes of the keyboard and voltage writes were.
\<close>

theorem set_light_buttons_sequence:
  "(let s1 = snd (set_light_keyboard os st s);
        b = rgb_to_brightness st;
        flag = (if red_byte (color st) = 0 \<and> green_byte (color st) = 0 \<and> blue_byte (color st) = 0
                then 0 else 1);
        voltage = (if 0 <s b
                   then [Lock,
                         Write BRIGHTNESS_FILE (Int_line b)
                           (io_result (os (trace s1 @ [Lock]) BRIGHTNESS_FILE (Int_line b))),
                         Unlock]
                   else []);
        res = io_result (os (trace s1 @ voltage @ [Lock]) BUTTONS_FILE (Int_line flag))
    in fst (set_light_buttons os st s) = res
       \<and> trace (snd (set_light_buttons os st s)) =
           trace s1 @ voltage @ [Lock, Write BUTTONS_FILE (Int_line flag) res, Unlock])"
  by (simp add: set_light_buttons_unfold locked_write_int Let_def)

theorem set_light_buttons_sequence_witness:
  "set_light_buttons keyboard_and_voltage_denied pure_white lights_init =
     (0, lights_init\<lparr>write_int_warned := True,
           trace := [Lock, Write KEYBOARD_FILE (Int_line 1) (- 13), Unlock,
                     Lock, Write BRIGHTNESS_FILE (Int_line 255) (- 13), Unlock,
                     Lock, Write BUTTONS_FILE (Int_line 1) 0, Unlock]\<rparr>)
   \<and> trace (snd (set_light_buttons always_ok black lights_init)) =
       [Lock, Write KEYBOARD_FILE (Int_line 2) 0, Unlock,
        Lock, Write BUTTONS_FILE (Int_line 0) 0, Unlock]
   \<and> trace (snd (set_light_buttons always_ok (black\<lparr>color := 1\<rparr>) lights_init)) =
       [Lock, Write KEYBOARD_FILE (Int_line 1) 0, Unlock,
        Lock, Write BUTTONS_FILE (Int_line 1) 0, Unlock]"
  using set_light_buttons_sequence [of keyboard_and_voltage_denied pure_white lights_init]
        set_light_buttons_sequence [of always_ok black lights_init]
        set_light_buttons_sequence [of always_ok "black\<lparr>color := 1\<rparr>" lights_init]
  by (simp add: set_light_buttons_def set_light_keyboard_def rgb_to_brightness_def
      pthread_mutex_lock_def pthread_mutex_unlock_def write_int_def io_result_def
      keyboard_and_voltage_denied_def always_ok_def pure_white_def black_def lights_init_def
      KEYBOARD_FILE_def BRIGHTNESS_FILE_def BUTTONS_FILE_def Let_def word_sless_alt)

lemma set_light_buttons_store: "led_store (snd (set_light_buttons os st s)) = led_store s"
  by (simp add: set_light_buttons_unfold locked_write_int set_light_keyboard_store Let_def)

text \<open>
  C10. A battery call leaves the two notifications records as they were, a notifications
  call leaves the two battery records as they were, and a backlight, keyboard or buttons
  call leaves all four records as they were.
\<close>

theorem led_store_frame:
  "notifications_red (snd (set_light_battery os st s)) = notifications_red s
   \<and> notifications_blue (snd (set_light_battery os st s)) = notifications_blue s
   \<and> battery_red (snd (set_light_notifications os st s)) = battery_red s
   \<and> battery_blue (snd (set_light_notifications os st s)) = battery_blue s
   \<and> led_store (snd (set_light_backlight os st s)) = led_store s
   \<and> led_store (snd (set_light_keyboard os st s)) = led_store s
   \<and> led_store (snd (set_light_buttons os st s)) = led_store s"
  by (simp only: led_store_fields [OF set_light_battery_store]
      led_store_fields [OF set_light_notifications_store]
      set_light_backlight_store set_light_keyboard_store set_light_buttons_store simp_thms)

theorem led_store_frame_witness:
  "notifications_red (snd (set_light_battery always_ok blink_purple store_in_use)) = led_blink
   \<and> notifications_blue (snd (set_light_battery always_ok blink_purple store_in_use)) = led_solid
   \<and> battery_red (snd (set_light_notifications red_trigger_denied black store_in_use)) = led_solid
   \<and> battery_blue (snd (set_light_notifications red_trigger_denied black store_in_use))
      = led_off_stale
   \<and> led_store (snd (set_light_buttons always_ok pure_white store_in_use)) =
     (led_solid, led_off_stale, led_blink, led_solid)"
  using led_store_frame [of always_ok blink_purple store_in_use]
        led_store_frame [of red_trigger_denied black store_in_use]
        led_store_frame [of always_ok pure_white store_in_use]
  by (simp add: store_in_use_def lights_init_def led_store_def)

section \<open>The lock\<close>







section \<open>Schedules of two calls\<close>


lemma events_of_Nil [simp]: "events_of t [] = []"
  by (simp add: events_of_def)





section \<open>What one device sees\<close>

lemma writes_to_simps [simp]:
  "\<not> writes_to dv Lock" "\<not> writes_to dv Unlock" "\<not> writes_to dv (Recompute src)"
  by (simp_all add: writes_to_def)


















lemmas eval_schedule =
  is_merge_def events_of_def serialized_def device_serialized_def writes_to_def
  led_controls_def LCD_FILE_def



end
